theory Spec2Isabelle
  imports Main "HOL-Library.AList" "HOL-Library.Sublist" "HOL-Library.Word"
begin

section \<open>Errors\<close>

text \<open>
  The three sentinel errors of the package, the two errors of \<^verbatim>\<open>database/sql\<close> that the
  code can meet (\<^verbatim>\<open>sql.ErrNoRows\<close>, \<^verbatim>\<open>sql.ErrTxDone\<close>), any other error of the driver,
  the error of \<^verbatim>\<open>strconv\<close>, and the run-time panic of a method call through a nil
  \<^verbatim>\<open>*sql.DB\<close>, \<^verbatim>\<open>*sql.Tx\<close> or \<^verbatim>\<open>*sql.Rows\<close>, which the model returns as a value.
\<close>

datatype error =
    ErrBucketIdTooLong
  | ErrKeyTooLong
  | ErrValueTooLong
  | ErrNoRows
  | ErrTxDone
  | EngineError string
  | NumError
  | NilPointerPanic

section \<open>The storage engine\<close>

text \<open>
  The engine is outside the repository; this is the model the operations run against.
  A Go \<^verbatim>\<open>string\<close> and a \<^verbatim>\<open>[]byte\<close> are both byte sequences, so both are \<^typ>\<open>string\<close>
  and the conversions between them are the identity. A table is the list of its rows
  \<open>((Bucket, KeyID), Value)\<close>; a database file is the list of its tables by name.
\<close>

type_synonym table = "((string \<times> string) \<times> string) list"
type_synonym database = "(string \<times> table) list"

text \<open>The statements the package sends, one constructor for each SQL text of the source.\<close>

datatype statement =
    CreateTable string
  | Upsert string string string string
  | Delete string string string

datatype query =
    SelectValue string string string
  | SelectKeyIDLike string string string

definition no_such_table :: "string \<Rightarrow> error" where
  "no_such_table tn = EngineError (''no such table: '' @ tn)"

text \<open>
  SQLite's \<^verbatim>\<open>LIKE\<close> with no \<^verbatim>\<open>ESCAPE\<close> clause: \<^verbatim>\<open>%\<close> matches any run of characters,
  \<^verbatim>\<open>_\<close> matches one character, and any other character matches itself, upper and lower
  case ASCII letters being equal. Characters are bytes here.
\<close>

definition ascii_lower :: "char \<Rightarrow> char" where
  "ascii_lower c =
     (let n = (of_char c :: nat) in if 65 \<le> n \<and> n \<le> 90 then char_of (n + 32) else c)"

fun sql_like :: "string \<Rightarrow> string \<Rightarrow> bool" where
  "sql_like [] [] = True"
| "sql_like [] (c # s) = False"
| "sql_like (p # ps) [] = (p = CHR ''%'' \<and> sql_like ps [])"
| "sql_like (p # ps) (c # s) =
     (if p = CHR ''%'' then sql_like ps (c # s) \<or> sql_like (p # ps) s
      else (p = CHR ''_'' \<or> ascii_lower p = ascii_lower c) \<and> sql_like ps s)"

fun exec_stmt :: "statement \<Rightarrow> database \<Rightarrow> error + database" where
  "exec_stmt (CreateTable tn) d =
     (case map_of d tn of None \<Rightarrow> Inr (AList.update tn [] d) | Some rows \<Rightarrow> Inr d)"
| "exec_stmt (Upsert tn b k v) d =
     (case map_of d tn of
        None \<Rightarrow> Inl (no_such_table tn)
      | Some rows \<Rightarrow> Inr (AList.update tn (AList.update (b, k) v rows) d))"
| "exec_stmt (Delete tn b k) d =
     (case map_of d tn of
        None \<Rightarrow> Inl (no_such_table tn)
      | Some rows \<Rightarrow> Inr (AList.update tn (AList.delete (b, k) rows) d))"

text \<open>The one value a \<^verbatim>\<open>QueryRow(...).Scan(&val)\<close> reads: that of the first matching row.\<close>

fun query_row :: "query \<Rightarrow> database \<Rightarrow> error + string" where
  "query_row (SelectValue tn b k) d =
     (case map_of d tn of
        None \<Rightarrow> Inl (no_such_table tn)
      | Some rows \<Rightarrow> (case map_of rows (b, k) of None \<Rightarrow> Inl ErrNoRows | Some v \<Rightarrow> Inr v))"
| "query_row (SelectKeyIDLike tn b pat) d =
     (case map_of d tn of
        None \<Rightarrow> Inl (no_such_table tn)
      | Some rows \<Rightarrow>
          (case filter (\<lambda>r. fst (fst r) = b \<and> sql_like pat (snd (fst r))) rows of
             [] \<Rightarrow> Inl ErrNoRows | r # _ \<Rightarrow> Inr (snd (fst r))))"

text \<open>The column a \<^verbatim>\<open>Query\<close> selects, row by row, in the order the table holds the rows.\<close>

fun query_rows :: "query \<Rightarrow> database \<Rightarrow> error + string list" where
  "query_rows (SelectValue tn b k) d =
     (case map_of d tn of
        None \<Rightarrow> Inl (no_such_table tn)
      | Some rows \<Rightarrow> Inr (map snd (filter (\<lambda>r. fst r = (b, k)) rows)))"
| "query_rows (SelectKeyIDLike tn b pat) d =
     (case map_of d tn of
        None \<Rightarrow> Inl (no_such_table tn)
      | Some rows \<Rightarrow>
          Inr (map (\<lambda>r. snd (fst r))
                 (filter (\<lambda>r. fst (fst r) = b \<and> sql_like pat (snd (fst r))) rows)))"

section \<open>The store\<close>

text \<open>
  \<^verbatim>\<open>*sql.DB\<close> is a handle with no state of its own in the model. A \<^verbatim>\<open>*sql.Tx\<close> holds the
  database as the transaction sees it (a copy taken at \<^verbatim>\<open>Begin\<close>, written back at
  \<^verbatim>\<open>Commit\<close>) and whether it has been committed or rolled back.
\<close>

datatype sql_DB = SqlDB

record sql_Tx =
  view :: database
  finished :: bool

text \<open>The struct of the source, field by field.\<close>

record SQLtPlainKV =
  DSN :: string
  db :: "sql_DB option"
  tx :: "sql_Tx option"
  currBuckt :: string
  defTableName :: string
  autoClose :: bool
  inTransaction :: bool

text \<open>
  The struct together with what its methods act on: the database file that \<open>DSN\<close> names,
  and the outcomes of the coming calls into the driver (\<open>None\<close>, or the error the call
  fails with; an empty schedule means that no call fails).
\<close>

record world = SQLtPlainKV +
  disk :: database
  faults :: "error option list"

definition mimeBuckt :: string where
  "mimeBuckt = ''--mime--''"

text \<open>\<^verbatim>\<open>fmt.Sprintf(tallyKey, key)\<close> with \<^verbatim>\<open>tallyKey = "_______#tally-%s"\<close>.\<close>

definition tallyKey :: "string \<Rightarrow> string" where
  "tallyKey key = ''_______#tally-'' @ key"

definition NewSQLtPlainKV :: "string \<Rightarrow> bool \<Rightarrow> database \<Rightarrow> error option list \<Rightarrow> world" where
  "NewSQLtPlainKV dsn ac d fs =
     \<lparr>DSN = dsn, db = None, tx = None, currBuckt = ''default'',
      defTableName = ''KeyValueTBL'', autoClose = ac, inTransaction = False,
      disk = d, faults = fs\<rparr>"

subsection \<open>Calls into \<^verbatim>\<open>database/sql\<close>\<close>

definition driver_call :: "world \<Rightarrow> error option \<times> world" where
  "driver_call s = (case faults s of [] \<Rightarrow> (None, s) | f # fs \<Rightarrow> (f, s\<lparr>faults := fs\<rparr>))"

definition db_Exec :: "world \<Rightarrow> statement \<Rightarrow> world \<times> error option" where
  "db_Exec s st =
     (case db s of
        None \<Rightarrow> (s, Some NilPointerPanic)
      | Some h \<Rightarrow>
          (case driver_call s of
             (Some e, s1) \<Rightarrow> (s1, Some e)
           | (None, s1) \<Rightarrow>
               (case exec_stmt st (disk s1) of
                  Inl e \<Rightarrow> (s1, Some e)
                | Inr d \<Rightarrow> (s1\<lparr>disk := d\<rparr>, None))))"

definition tx_Exec :: "world \<Rightarrow> statement \<Rightarrow> world \<times> error option" where
  "tx_Exec s st =
     (case tx s of
        None \<Rightarrow> (s, Some NilPointerPanic)
      | Some t \<Rightarrow>
          if finished t then (s, Some ErrTxDone)
          else
            (case driver_call s of
               (Some e, s1) \<Rightarrow> (s1, Some e)
             | (None, s1) \<Rightarrow>
                 (case exec_stmt st (view t) of
                    Inl e \<Rightarrow> (s1, Some e)
                  | Inr d \<Rightarrow> (s1\<lparr>tx := Some (t\<lparr>view := d\<rparr>)\<rparr>, None))))"

text \<open>\<^verbatim>\<open>QueryRow(...).Scan(&val)\<close>: \<open>Inr v\<close> assigns \<open>v\<close>; \<open>Inl e\<close> is the error, \<^verbatim>\<open>val\<close> untouched.\<close>

definition db_QueryRow :: "world \<Rightarrow> query \<Rightarrow> world \<times> (error + string)" where
  "db_QueryRow s q =
     (case db s of
        None \<Rightarrow> (s, Inl NilPointerPanic)
      | Some h \<Rightarrow>
          (case driver_call s of
             (Some e, s1) \<Rightarrow> (s1, Inl e)
           | (None, s1) \<Rightarrow> (s1, query_row q (disk s1))))"

definition tx_QueryRow :: "world \<Rightarrow> query \<Rightarrow> world \<times> (error + string)" where
  "tx_QueryRow s q =
     (case tx s of
        None \<Rightarrow> (s, Inl NilPointerPanic)
      | Some t \<Rightarrow>
          if finished t then (s, Inl ErrTxDone)
          else
            (case driver_call s of
               (Some e, s1) \<Rightarrow> (s1, Inl e)
             | (None, s1) \<Rightarrow> (s1, query_row q (view t))))"

text \<open>
  A \<^verbatim>\<open>*sql.Rows\<close>: what each \<^verbatim>\<open>Next\<close>/\<^verbatim>\<open>Scan\<close> step gives, and what \<^verbatim>\<open>Err\<close> reports at
  the end. The engine of the model delivers every selected row and no error.
\<close>

type_synonym sql_Rows = "(error + string) list \<times> error option"

definition db_Query :: "world \<Rightarrow> query \<Rightarrow> world \<times> (error + sql_Rows)" where
  "db_Query s q =
     (case db s of
        None \<Rightarrow> (s, Inl NilPointerPanic)
      | Some h \<Rightarrow>
          (case driver_call s of
             (Some e, s1) \<Rightarrow> (s1, Inl e)
           | (None, s1) \<Rightarrow>
               (case query_rows q (disk s1) of
                  Inl e \<Rightarrow> (s1, Inl e)
                | Inr ks \<Rightarrow> (s1, Inr (map Inr ks, None)))))"

definition tx_Query :: "world \<Rightarrow> query \<Rightarrow> world \<times> (error + sql_Rows)" where
  "tx_Query s q =
     (case tx s of
        None \<Rightarrow> (s, Inl NilPointerPanic)
      | Some t \<Rightarrow>
          if finished t then (s, Inl ErrTxDone)
          else
            (case driver_call s of
               (Some e, s1) \<Rightarrow> (s1, Inl e)
             | (None, s1) \<Rightarrow>
                 (case query_rows q (view t) of
                    Inl e \<Rightarrow> (s1, Inl e)
                  | Inr ks \<Rightarrow> (s1, Inr (map Inr ks, None)))))"

text \<open>\<^verbatim>\<open>tx.Commit()\<close> and \<^verbatim>\<open>tx.Rollback()\<close>: a second call on the same handle is \<^verbatim>\<open>ErrTxDone\<close>.\<close>

definition tx_Commit :: "world \<Rightarrow> world \<times> error option" where
  "tx_Commit s =
     (case tx s of
        None \<Rightarrow> (s, Some NilPointerPanic)
      | Some t \<Rightarrow>
          if finished t then (s, Some ErrTxDone)
          else
            (case driver_call s of
               (Some e, s1) \<Rightarrow> (s1\<lparr>tx := Some (t\<lparr>finished := True\<rparr>)\<rparr>, Some e)
             | (None, s1) \<Rightarrow>
                 (s1\<lparr>tx := Some (t\<lparr>finished := True\<rparr>), disk := view t\<rparr>, None)))"

definition tx_Rollback :: "world \<Rightarrow> world \<times> error option" where
  "tx_Rollback s =
     (case tx s of
        None \<Rightarrow> (s, Some NilPointerPanic)
      | Some t \<Rightarrow>
          if finished t then (s, Some ErrTxDone)
          else
            (case driver_call s of
               (Some e, s1) \<Rightarrow> (s1\<lparr>tx := Some (t\<lparr>finished := True\<rparr>)\<rparr>, Some e)
             | (None, s1) \<Rightarrow> (s1\<lparr>tx := Some (t\<lparr>finished := True\<rparr>)\<rparr>, None)))"

subsection \<open>Connection and transaction\<close>

definition Open :: "world \<Rightarrow> world \<times> error option" where
  "Open s =
     (if db s \<noteq> None then (s, None)
      else
        (case driver_call (s\<lparr>inTransaction := False\<rparr>) of
           (Some e, s1) \<Rightarrow> (s1\<lparr>db := None\<rparr>, Some e)
         | (None, s1) \<Rightarrow>
             (case db_Exec (s1\<lparr>db := Some SqlDB\<rparr>) (CreateTable (defTableName s1)) of
                (s2, Some e) \<Rightarrow> (s2, Some e)
              | (s2, None) \<Rightarrow> (s2, None))))"

definition Begin :: "world \<Rightarrow> world \<times> error option" where
  "Begin s =
     (case db s of
        None \<Rightarrow> (s, Some NilPointerPanic)
      | Some h \<Rightarrow>
          (case driver_call s of
             (Some e, s1) \<Rightarrow> (s1\<lparr>tx := None\<rparr>, Some e)
           | (None, s1) \<Rightarrow>
               (s1\<lparr>tx := Some \<lparr>view = disk s1, finished = False\<rparr>,
                   inTransaction := True\<rparr>, None)))"

definition Commit :: "world \<Rightarrow> world \<times> error option" where
  "Commit s =
     (if tx s = None then (s, None)
      else
        (case tx_Commit s of
           (s1, Some e) \<Rightarrow> (s1, Some e)
         | (s1, None) \<Rightarrow> (s1\<lparr>inTransaction := False\<rparr>, None)))"

definition Rollback :: "world \<Rightarrow> world \<times> error option" where
  "Rollback s =
     (if tx s = None then (s, None)
      else
        (case tx_Rollback s of
           (s1, Some e) \<Rightarrow> (s1, Some e)
         | (s1, None) \<Rightarrow> (s1\<lparr>inTransaction := False\<rparr>, None)))"

definition Close :: "world \<Rightarrow> world \<times> error option" where
  "Close s =
     (let s1 = (if tx s \<noteq> None then s\<lparr>tx := None\<rparr> else s) in
      if db s1 = None then (s1, None)
      else
        (case driver_call s1 of
           (Some e, s2) \<Rightarrow> (s2, Some e)
         | (None, s2) \<Rightarrow> (s2\<lparr>db := None\<rparr>, None)))"

text \<open>\<^verbatim>\<open>if p.autoClose { defer p.Close() }\<close>: the flag is read when the call is deferred.\<close>

definition deferred_Close :: "bool \<Rightarrow> world \<Rightarrow> world" where
  "deferred_Close ac s = (if ac then fst (Close s) else s)"

definition SetBucket :: "world \<Rightarrow> string \<Rightarrow> world" where
  "SetBucket s bucket = s\<lparr>currBuckt := bucket\<rparr>"

definition SetTableName :: "world \<Rightarrow> string \<Rightarrow> world" where
  "SetTableName s tableName = s\<lparr>defTableName := tableName\<rparr>"

subsection \<open>Records\<close>

definition get :: "world \<Rightarrow> string \<Rightarrow> string \<Rightarrow> world \<times> string \<times> error option" where
  "get s bucket key =
     (case Open s of
        (s1, Some e) \<Rightarrow> (s1, [], Some e)
      | (s1, None) \<Rightarrow>
          (let ac = autoClose s1;
               bucket1 = (if bucket = [] then ''default'' else bucket);
               q = SelectValue (defTableName s1) bucket1 key
           in case (if inTransaction s1 then tx_QueryRow s1 q else db_QueryRow s1 q) of
                (s2, Inl e) \<Rightarrow>
                  if e \<noteq> ErrNoRows then (deferred_Close ac s2, [], Some e)
                  else (deferred_Close ac s2, [], None)
              | (s2, Inr v) \<Rightarrow> (deferred_Close ac s2, v, None)))"

definition set_kv :: "world \<Rightarrow> string \<Rightarrow> string \<Rightarrow> string \<Rightarrow> world \<times> error option" where
  "set_kv s bucket key val =
     (case Open s of
        (s1, Some e) \<Rightarrow> (s1, Some e)
      | (s1, None) \<Rightarrow>
          (let ac = autoClose s1 in
           if length bucket > 50 then (deferred_Close ac s1, Some ErrBucketIdTooLong)
           else if length key > 300 then (deferred_Close ac s1, Some ErrKeyTooLong)
           else if length val > 16777215 then (deferred_Close ac s1, Some ErrValueTooLong)
           else
             (let st = Upsert (defTableName s1) bucket key val
              in case (if inTransaction s1 then tx_Exec s1 st else db_Exec s1 st) of
                   (s2, Some e) \<Rightarrow> (deferred_Close ac s2, Some e)
                 | (s2, None) \<Rightarrow> (deferred_Close ac s2, None))))"

definition Get :: "world \<Rightarrow> string \<Rightarrow> world \<times> string \<times> error option" where
  "Get s key = get s (currBuckt s) key"

definition GetMime :: "world \<Rightarrow> string \<Rightarrow> world \<times> string \<times> error option" where
  "GetMime s key =
     (case get s mimeBuckt key of
        (s1, val, err) \<Rightarrow>
          if err \<noteq> None \<or> length val = 0 then (s1, ''text/html'', err)
          else (s1, val, None))"

definition Set :: "world \<Rightarrow> string \<Rightarrow> string \<Rightarrow> world \<times> error option" where
  "Set s key val =
     (let s1 = (if currBuckt s = [] then s\<lparr>currBuckt := ''default''\<rparr> else s) in
      case set_kv s1 (currBuckt s1) key val of
        (s2, Some e) \<Rightarrow> (s2, Some e)
      | (s2, None) \<Rightarrow> (s2, None))"

definition SetMime :: "world \<Rightarrow> string \<Rightarrow> string \<Rightarrow> world \<times> error option" where
  "SetMime s key mime =
     (case set_kv s mimeBuckt key mime of
        (s1, Some e) \<Rightarrow> (s1, Some e)
      | (s1, None) \<Rightarrow> (s1, None))"

definition Del :: "world \<Rightarrow> string \<Rightarrow> world \<times> error option" where
  "Del s key =
     (case Open s of
        (s1, Some e) \<Rightarrow> (s1, Some e)
      | (s1, None) \<Rightarrow>
          (let ac = autoClose s1;
               s2 = (if currBuckt s1 = [] then s1\<lparr>currBuckt := ''default''\<rparr> else s1);
               tn = defTableName s2
           in if inTransaction s2 then
                (case tx_Exec s2 (Delete tn (currBuckt s2) key) of
                   (s3, Some e) \<Rightarrow> (deferred_Close ac s3, Some e)
                 | (s3, None) \<Rightarrow>
                     (case tx_Exec s3 (Delete tn mimeBuckt key) of
                        (s4, Some e) \<Rightarrow> (deferred_Close ac s4, Some e)
                      | (s4, None) \<Rightarrow> (deferred_Close ac s4, None)))
              else
                (case db_Exec s2 (Delete tn (currBuckt s2) key) of
                   (s3, Some e) \<Rightarrow> (deferred_Close ac s3, Some e)
                 | (s3, None) \<Rightarrow>
                     (case db_Exec s3 (Delete tn mimeBuckt key) of
                        (s4, Some e) \<Rightarrow> (deferred_Close ac s4, Some e)
                      | (s4, None) \<Rightarrow> (deferred_Close ac s4, None)))))"

subsection \<open>Listing keys\<close>

text \<open>The loop \<^verbatim>\<open>for sqr.Next() { if err = sqr.Scan(&k); err != nil {return} ; append }\<close>.\<close>

fun scan_rows :: "(error + string) list \<Rightarrow> string list \<Rightarrow> string list \<times> error option" where
  "scan_rows [] val = (val, None)"
| "scan_rows (Inl e # rs) val = (val, Some e)"
| "scan_rows (Inr k # rs) val = scan_rows rs (val @ [k])"

text \<open>
  When the query fails with \<^verbatim>\<open>sql.ErrNoRows\<close> the source goes on with a nil \<^verbatim>\<open>sqr\<close>, and
  \<^verbatim>\<open>sqr.Next()\<close> panics.
\<close>

definition ListKeys :: "world \<Rightarrow> string \<Rightarrow> world \<times> string list \<times> error option" where
  "ListKeys s pattern =
     (case Open s of
        (s1, Some e) \<Rightarrow> (s1, [], Some e)
      | (s1, None) \<Rightarrow>
          (let ac = autoClose s1;
               s2 = (if currBuckt s1 = [] then s1\<lparr>currBuckt := ''default''\<rparr> else s1);
               q = SelectKeyIDLike (defTableName s2) (currBuckt s2) (pattern @ ''%'')
           in case (if inTransaction s2 then tx_Query s2 q else db_Query s2 q) of
                (s3, Inl e) \<Rightarrow>
                  if e \<noteq> ErrNoRows then (deferred_Close ac s3, [], Some e)
                  else (deferred_Close ac s3, [], Some NilPointerPanic)
              | (s3, Inr (rs, rerr)) \<Rightarrow>
                  (case scan_rows rs [] of
                     (val, Some e) \<Rightarrow> (deferred_Close ac s3, val, Some e)
                   | (val, None) \<Rightarrow>
                       (case rerr of
                          Some e \<Rightarrow> (deferred_Close ac s3, val, Some e)
                        | None \<Rightarrow> (deferred_Close ac s3, val, None)))))"

subsection \<open>Counters\<close>

text \<open>Go's \<^verbatim>\<open>int\<close> on a 64-bit platform.\<close>

type_synonym go_int = "64 word"

text \<open>\<^verbatim>\<open>strconv.Itoa\<close>: the decimal digits, after a minus sign for a negative number.\<close>

fun digits :: "nat \<Rightarrow> string" where
  "digits n =
     (if n < 10 then [''0123456789'' ! n]
      else digits (n div 10) @ [''0123456789'' ! (n mod 10)])"

declare digits.simps [simp del]

definition Itoa :: "go_int \<Rightarrow> string" where
  "Itoa i = (if sint i < 0 then CHR ''-'' # digits (nat (- sint i)) else digits (nat (sint i)))"

text \<open>
  \<^verbatim>\<open>strconv.Atoi\<close>: an optional sign and at least one decimal digit. A text that is not
  of this form gives 0 and an error; a number out of range gives the nearest bound and
  an error.
\<close>

definition digit_val :: "char \<Rightarrow> int option" where
  "digit_val c =
     (let n = (of_char c :: int) in if 48 \<le> n \<and> n \<le> 57 then Some (n - 48) else None)"

fun parse_digits :: "string \<Rightarrow> int \<Rightarrow> int option" where
  "parse_digits [] acc = Some acc"
| "parse_digits (c # cs) acc =
     (case digit_val c of None \<Rightarrow> None | Some d \<Rightarrow> parse_digits cs (acc * 10 + d))"

definition Atoi :: "string \<Rightarrow> go_int \<times> error option" where
  "Atoi s =
     (let neg = (case s of [] \<Rightarrow> False | c # r \<Rightarrow> c = CHR ''-'');
          ds = (case s of [] \<Rightarrow> [] | c # r \<Rightarrow> if c = CHR ''-'' \<or> c = CHR ''+'' then r else s)
      in if ds = [] then (0, Some NumError)
         else
           (case parse_digits ds 0 of
              None \<Rightarrow> (0, Some NumError)
            | Some n \<Rightarrow>
                if \<not> neg \<and> n \<ge> 2 ^ 63 then (word_of_int (2 ^ 63 - 1), Some NumError)
                else if neg \<and> n > 2 ^ 63 then (word_of_int (- (2 ^ 63)), Some NumError)
                else (word_of_int (if neg then - n else n), None)))"

definition Tally :: "world \<Rightarrow> string \<Rightarrow> go_int \<Rightarrow> world \<times> go_int \<times> error option" where
  "Tally s key offset =
     (let tk = tallyKey key in
      case get s (currBuckt s) tk of
        (s1, tlly, Some e) \<Rightarrow> (s1, - 1, Some e)
      | (s1, tlly, None) \<Rightarrow>
          (case (if length tlly = 0 then set_kv s1 (currBuckt s1) tk (Itoa offset)
                 else (s1, None)) of
             (s2, Some e) \<Rightarrow> (s2, - 1, Some e)
           | (s2, None) \<Rightarrow> (s2, fst (Atoi tlly), None)))"

definition TallyIncr :: "world \<Rightarrow> string \<Rightarrow> world \<times> go_int \<times> error option" where
  "TallyIncr s key =
     (case Tally s key 0 of
        (s1, tlly, Some e) \<Rightarrow> (s1, tlly, Some e)
      | (s1, tlly, None) \<Rightarrow>
          (let tk = tallyKey key in
           case set_kv s1 (currBuckt s1) tk (Itoa (tlly + 1)) of
             (s2, Some e) \<Rightarrow> (s2, tlly, Some e)
           | (s2, None) \<Rightarrow> (s2, tlly + 1, None)))"

definition TallyDecr :: "world \<Rightarrow> string \<Rightarrow> world \<times> go_int \<times> error option" where
  "TallyDecr s key =
     (case Tally s key 0 of
        (s1, tlly, Some e) \<Rightarrow> (s1, tlly, Some e)
      | (s1, tlly, None) \<Rightarrow>
          (let tk = tallyKey key in
           case set_kv s1 (currBuckt s1) tk (Itoa (tlly - 1)) of
             (s2, Some e) \<Rightarrow> (s2, tlly, Some e)
           | (s2, None) \<Rightarrow> (s2, tlly - 1, None)))"

definition TallyReset :: "world \<Rightarrow> string \<Rightarrow> world \<times> error option" where
  "TallyReset s key =
     (let tk = tallyKey key in
      case set_kv s (currBuckt s) tk ''0'' of
        (s1, Some e) \<Rightarrow> (s1, Some e)
      | (s1, None) \<Rightarrow> (s1, None))"

section \<open>Observing the store\<close>

text \<open>
  What the theorems speak about. \<open>target\<close> is the database the statements of the next
  operation run on: the view of the transaction when the connection is open and
  \<open>inTransaction\<close> is set, the file otherwise (an operation on a closed connection
  reopens it and clears \<open>inTransaction\<close>). \<open>stored\<close> is the rows of the store's table
  there.
\<close>

definition target :: "world \<Rightarrow> database" where
  "target s =
     (if db s \<noteq> None \<and> inTransaction s then (case tx s of None \<Rightarrow> [] | Some t \<Rightarrow> view t)
      else disk s)"

definition stored :: "world \<Rightarrow> table" where
  "stored s = (case map_of (target s) (defTableName s) of None \<Rightarrow> [] | Some rows \<Rightarrow> rows)"

text \<open>
  No call into the driver is going to fail: the schedule of faults is empty and, when the
  connection is open, the transaction (if \<open>inTransaction\<close>) is live and the table exists
  where the statements run.
\<close>

definition usable :: "world \<Rightarrow> bool" where
  "usable s =
     (faults s = [] \<and>
      (db s = None \<or>
       (if inTransaction s
        then (case tx s of
                None \<Rightarrow> False
              | Some t \<Rightarrow> \<not> finished t \<and> map_of (view t) (defTableName s) \<noteq> None)
        else map_of (disk s) (defTableName s) \<noteq> None)))"

text \<open>
  The store closes the connection after every operation while a transaction is open on
  it: the deferred \<^verbatim>\<open>Close\<close> then drops the transaction with what it has written.
\<close>

definition closes_transaction :: "world \<Rightarrow> bool" where
  "closes_transaction s = (autoClose s \<and> inTransaction s \<and> db s \<noteq> None)"

text \<open>The fields no statement touches.\<close>

definition same_config :: "world \<Rightarrow> world \<Rightarrow> bool" where
  "same_config s1 s =
     (autoClose s1 = autoClose s \<and> currBuckt s1 = currBuckt s \<and>
      defTableName s1 = defTableName s)"

text \<open>A store as \<^verbatim>\<open>NewSQLtPlainKV("local.dat", false)\<close> gives it, on an empty file.\<close>

definition fresh_store :: world where
  "fresh_store = NewSQLtPlainKV ''local.dat'' False [] []"

section \<open>The steps of an operation when no call fails\<close>

lemmas obs = target_def stored_def usable_def closes_transaction_def same_config_def

lemma driver_call_ok: "faults s = [] \<Longrightarrow> driver_call s = (None, s)"
  by (simp add: driver_call_def)

lemma Open_usable:
  assumes "usable s"
  shows "snd (Open s) = None" and "usable (fst (Open s))" and "db (fst (Open s)) \<noteq> None"
    and "stored (fst (Open s)) = stored s" and "same_config (fst (Open s)) s"
    and "closes_transaction (fst (Open s)) = closes_transaction s"
  using assms
  by (auto simp: obs Open_def db_Exec_def driver_call_def update_conv'
      split: option.splits if_splits)

lemma run_upsert:
  fixes s :: world and b k v :: string
  assumes "usable s" "db s \<noteq> None"
  defines "r \<equiv> (if inTransaction s then tx_Exec s (Upsert (defTableName s) b k v)
                 else db_Exec s (Upsert (defTableName s) b k v))"
  shows "snd r = None" and "usable (fst r)" and "db (fst r) \<noteq> None"
    and "stored (fst r) = AList.update (b, k) v (stored s)" and "same_config (fst r) s"
    and "inTransaction (fst r) = inTransaction s"
  using assms(1,2) unfolding r_def
  by (auto simp: obs tx_Exec_def db_Exec_def driver_call_def update_conv'
      split: option.splits if_splits)

lemma run_delete:
  fixes s :: world and b k :: string
  assumes "usable s" "db s \<noteq> None"
  defines "r \<equiv> (if inTransaction s then tx_Exec s (Delete (defTableName s) b k)
                 else db_Exec s (Delete (defTableName s) b k))"
  shows "snd r = None" and "usable (fst r)" and "db (fst r) \<noteq> None"
    and "stored (fst r) = AList.delete (b, k) (stored s)" and "same_config (fst r) s"
    and "inTransaction (fst r) = inTransaction s"
  using assms(1,2) unfolding r_def
  by (auto simp: obs tx_Exec_def db_Exec_def driver_call_def update_conv'
      split: option.splits if_splits)

lemma run_select_value:
  fixes s :: world and b k :: string
  assumes "usable s" "db s \<noteq> None"
  defines "r \<equiv> (if inTransaction s then tx_QueryRow s (SelectValue (defTableName s) b k)
                 else db_QueryRow s (SelectValue (defTableName s) b k))"
  shows "r = (s, case map_of (stored s) (b, k) of None \<Rightarrow> Inl ErrNoRows | Some v \<Rightarrow> Inr v)"
  using assms(1,2) unfolding r_def
  by (auto simp: obs tx_QueryRow_def db_QueryRow_def driver_call_def
      split: option.splits if_splits)

lemma run_select_keys:
  fixes s :: world and b pat :: string
  assumes "usable s" "db s \<noteq> None"
  defines "r \<equiv> (if inTransaction s then tx_Query s (SelectKeyIDLike (defTableName s) b pat)
                 else db_Query s (SelectKeyIDLike (defTableName s) b pat))"
  shows "r = (s, Inr (map Inr (map (\<lambda>r. snd (fst r))
                 (filter (\<lambda>r. fst (fst r) = b \<and> sql_like pat (snd (fst r))) (stored s))), None))"
  using assms(1,2) unfolding r_def
  by (auto simp: obs tx_Query_def db_Query_def driver_call_def
      split: option.splits if_splits)

lemma deferred_Close_usable:
  fixes s :: world
  assumes "usable s" "db s \<noteq> None" "\<not> closes_transaction s"
  defines "s1 \<equiv> deferred_Close (autoClose s) s"
  shows "usable s1" and "stored s1 = stored s" and "same_config s1 s"
    and "\<not> closes_transaction s1"
  using assms(1,2,3) unfolding s1_def
  by (auto simp: obs deferred_Close_def Close_def driver_call_def
      split: option.splits if_splits)

lemma same_config_prims:
  "same_config (snd (driver_call s)) s"
  "same_config (fst (db_Exec s st)) s"
  "same_config (fst (tx_Exec s st)) s"
  "same_config (fst (db_QueryRow s q)) s"
  "same_config (fst (tx_QueryRow s q)) s"
  "same_config (fst (db_Query s q)) s"
  "same_config (fst (tx_Query s q)) s"
  by (auto simp: same_config_def driver_call_def db_Exec_def tx_Exec_def db_QueryRow_def
      tx_QueryRow_def db_Query_def tx_Query_def
      split: list.splits option.splits sum.splits)

lemma same_config_Open: "same_config (fst (Open s)) s"
  by (auto simp: same_config_def driver_call_def db_Exec_def Open_def
      split: list.splits option.splits sum.splits)

lemma same_config_Close: "same_config (fst (Close s)) s"
  by (auto simp: same_config_def driver_call_def Close_def Let_def
      split: list.splits option.splits)

lemma same_config_deferred_Close: "same_config (deferred_Close ac s) s"
  using same_config_Close [of s] by (simp add: deferred_Close_def same_config_def)

lemma same_config_trans: "same_config s2 s1 \<Longrightarrow> same_config s1 s \<Longrightarrow> same_config s2 s"
  by (simp add: same_config_def)

lemma get_usable:
  fixes s :: world and bucket key :: string
  assumes "usable s"
  defines "nb \<equiv> (if bucket = [] then ''default'' else bucket)"
  shows "snd (get s bucket key) =
           (case map_of (stored s) (nb, key) of None \<Rightarrow> [] | Some v \<Rightarrow> v, None)"
    and "\<not> closes_transaction s \<Longrightarrow> usable (fst (get s bucket key))"
    and "\<not> closes_transaction s \<Longrightarrow> stored (fst (get s bucket key)) = stored s"
    and "\<not> closes_transaction s \<Longrightarrow> \<not> closes_transaction (fst (get s bucket key))"
    and "same_config (fst (get s bucket key)) s"
proof -
  obtain s1 where o: "Open s = (s1, None)"
    using Open_usable(1) [OF assms(1)] by (cases "Open s") auto
  have u1: "usable s1" "db s1 \<noteq> None" "stored s1 = stored s" "same_config s1 s"
    "closes_transaction s1 = closes_transaction s"
    using Open_usable [OF assms(1)] o by auto
  note q = run_select_value [OF u1(1,2), of nb key]
  have g: "get s bucket key =
      (deferred_Close (autoClose s1) s1,
       case map_of (stored s) (nb, key) of None \<Rightarrow> [] | Some v \<Rightarrow> v, None)"
    using q by (simp add: get_def o nb_def u1(3) split: option.splits if_splits)
  show "snd (get s bucket key) =
           (case map_of (stored s) (nb, key) of None \<Rightarrow> [] | Some v \<Rightarrow> v, None)"
    by (simp add: g)
  show "same_config (fst (get s bucket key)) s"
    using u1(4) same_config_deferred_Close [of "autoClose s1" s1]
    by (simp add: g same_config_def)
  {
    assume "\<not> closes_transaction s"
    then have n: "\<not> closes_transaction s1" by (simp add: u1(5))
    note d = deferred_Close_usable [OF u1(1,2) n]
    show "usable (fst (get s bucket key))" by (simp add: g d)
    show "stored (fst (get s bucket key)) = stored s" by (simp add: g d u1(3))
    show "\<not> closes_transaction (fst (get s bucket key))" by (simp add: g d)
  }
qed

lemma set_kv_usable:
  fixes s :: world and bucket key val :: string
  assumes "usable s" "\<not> closes_transaction s"
    and "length bucket \<le> 50" "length key \<le> 300" "length val \<le> 16777215"
  shows "snd (set_kv s bucket key val) = None"
    and "usable (fst (set_kv s bucket key val))"
    and "stored (fst (set_kv s bucket key val)) = AList.update (bucket, key) val (stored s)"
    and "\<not> closes_transaction (fst (set_kv s bucket key val))"
    and "same_config (fst (set_kv s bucket key val)) s"
proof -
  obtain s1 where o: "Open s = (s1, None)"
    using Open_usable(1) [OF assms(1)] by (cases "Open s") auto
  have u1: "usable s1" "db s1 \<noteq> None" "stored s1 = stored s" "same_config s1 s"
    "\<not> closes_transaction s1"
    using Open_usable [OF assms(1)] o assms(2) by auto
  define r where "r = (if inTransaction s1 then tx_Exec s1 (Upsert (defTableName s1) bucket key val)
                 else db_Exec s1 (Upsert (defTableName s1) bucket key val))"
  note e = run_upsert [OF u1(1,2), of bucket key val, folded r_def]
  obtain s2 where r: "r = (s2, None)" using e(1) by (cases r) auto
  have u2: "usable s2" "db s2 \<noteq> None" "stored s2 = AList.update (bucket, key) val (stored s)"
    "same_config s2 s" "\<not> closes_transaction s2"
    using e r u1 by (auto simp: same_config_def closes_transaction_def)
  have a: "autoClose s1 = autoClose s2" using e(5) r by (simp add: same_config_def)
  have g: "set_kv s bucket key val = (deferred_Close (autoClose s2) s2, None)"
    using assms(3-5) r by (simp add: set_kv_def o r_def [symmetric] a)
  note d = deferred_Close_usable [OF u2(1,2,5)]
  show "snd (set_kv s bucket key val) = None" by (simp add: g)
  show "usable (fst (set_kv s bucket key val))" by (simp add: g d)
  show "stored (fst (set_kv s bucket key val)) = AList.update (bucket, key) val (stored s)"
    by (simp add: g d u2)
  show "\<not> closes_transaction (fst (set_kv s bucket key val))" by (simp add: g d)
  show "same_config (fst (set_kv s bucket key val)) s"
    using d(3) u2(4) by (simp add: g same_config_def)
qed

lemmas run = fresh_store_def NewSQLtPlainKV_def SetBucket_def Open_def Begin_def Commit_def Rollback_def Close_def
  deferred_Close_def driver_call_def db_Exec_def tx_Exec_def db_QueryRow_def tx_QueryRow_def
  db_Query_def tx_Query_def tx_Commit_def tx_Rollback_def get_def set_kv_def

section \<open>Round trip\<close>

text \<open>
  C5. For every bucket, key and value within the size bounds, \<open>set\<close> followed by \<open>get\<close>
  returns the value with no error. Proved for a non-empty bucket name, on a store where no
  driver call fails and that does not close the connection inside a transaction.
\<close>

theorem set_get_roundtrip:
  assumes "length bucket \<le> 50" "length key \<le> 300" "length val \<le> 16777215"
    and "bucket \<noteq> []" and "usable s" and "\<not> closes_transaction s"
  shows "snd (set_kv s bucket key val) = None \<and>
         snd (get (fst (set_kv s bucket key val)) bucket key) = (val, None)"
  using set_kv_usable [OF assms(5,6,1,2,3)] assms(4)
  by (simp add: get_usable(1) update_conv')

theorem set_get_roundtrip_witness:
  "usable fresh_store \<and> \<not> closes_transaction fresh_store \<and>
   snd (set_kv fresh_store ''b'' ''k'' ''v'') = None \<and>
   snd (get (fst (set_kv fresh_store ''b'' ''k'' ''v'')) ''b'' ''k'') = (''v'', None)"
  using set_get_roundtrip [of "''b''" "''k''" "''v''" fresh_store]
  by (simp add: usable_def closes_transaction_def fresh_store_def NewSQLtPlainKV_def)

text \<open>
  On a store made with \<^verbatim>\<open>autoClose\<close>, inside a transaction, \<open>set\<close> succeeds and the \<open>get\<close>
  that follows finds nothing: the deferred \<^verbatim>\<open>Close\<close> of \<open>set\<close> dropped the transaction.
\<close>

theorem set_get_roundtrip_counterexample:
  "snd (set_kv (fst (Begin (fst (Open (NewSQLtPlainKV ''local.dat'' True [] [])))))
         ''b'' ''k'' ''v'') = None \<and>
   snd (get (fst (set_kv (fst (Begin (fst (Open (NewSQLtPlainKV ''local.dat'' True [] [])))))
                ''b'' ''k'' ''v'')) ''b'' ''k'') = ([], None)"
  by (simp add: run)

section \<open>Counters\<close>

text \<open>
  C1. \<open>Tally(key, offset)\<close> on a key with no counter record writes the decimal text of
  \<open>offset\<close> and returns \<open>offset\<close>. The code writes the record, and returns what it parsed
  from the empty text it had read before: \<open>Tally(k, 5)\<close> on a new store stores
  \<open>5\<close> and returns \<open>0\<close>.
\<close>

theorem Tally_fresh_key_returns_zero:
  "Tally fresh_store ''k'' 5 =
     (\<lparr>DSN = ''local.dat'', db = Some SqlDB, tx = None, currBuckt = ''default'',
       defTableName = ''KeyValueTBL'', autoClose = False, inTransaction = False,
       disk = [(''KeyValueTBL'', [((''default'', ''_______#tally-k''), ''5'')])],
       faults = []\<rparr>, 0, None)"
  by (simp add: run Tally_def tallyKey_def Itoa_def Atoi_def digits.simps)

text \<open>
  C4. An empty bucket name is \<open>default\<close> for the read and for the write of every
  operation. With the current bucket empty, the counter operations read bucket \<open>default\<close>
  (\<open>get\<close> renames the bucket) and write the bucket with the empty name (\<open>set\<close> does
  not rename): two \<open>TallyIncr\<close> in a row both return 1, and the record is in the bucket
  with the empty name.
\<close>

theorem Tally_empty_bucket_splits_read_and_write:
  "(case TallyIncr (SetBucket fresh_store []) ''k'' of
      (s1, n1, e1) \<Rightarrow>
        (case TallyIncr s1 ''k'' of
           (s2, n2, e2) \<Rightarrow> ((n1, e1), (n2, e2), currBuckt s2, disk s2))) =
   ((1, None), (1, None), [],
    [(''KeyValueTBL'', [(([], ''_______#tally-k''), ''1'')])])"
  by (simp add: run Tally_def TallyIncr_def tallyKey_def Itoa_def Atoi_def digits.simps)

section \<open>Transactions\<close>

text \<open>
  C3. \<open>Commit\<close> and \<open>Rollback\<close> with no transaction active succeed and change nothing,
  also after a successful \<open>Commit\<close> or \<open>Rollback\<close>. The code tests \<open>tx\<close> for nil, and a
  successful \<open>Commit\<close> or \<open>Rollback\<close> clears \<open>inTransaction\<close> but keeps \<open>tx\<close>: the
  second call goes to the finished transaction and returns \<^verbatim>\<open>sql.ErrTxDone\<close>.
\<close>

theorem Commit_twice_ErrTxDone:
  "snd (Commit (fst (Begin (fst (Open fresh_store))))) = None \<and>
   inTransaction (fst (Commit (fst (Begin (fst (Open fresh_store)))))) = False \<and>
   snd (Commit (fst (Commit (fst (Begin (fst (Open fresh_store))))))) = Some ErrTxDone \<and>
   snd (Rollback (fst (Commit (fst (Begin (fst (Open fresh_store))))))) = Some ErrTxDone \<and>
   snd (Rollback (fst (Rollback (fst (Begin (fst (Open fresh_store))))))) = Some ErrTxDone"
  by (simp add: run)


end
